theory Spec2Isabelle
  imports Complex_Main "HOL-Library.Sublist"
begin

section \<open>Data model of the training engine (vall_e/engines/base.py)\<close>

text \<open>
  Python exceptions are values. Only the classes that the modelled code raises or
  catches are distinguished; the string is the message (\<open>str(e)\<close>).
\<close>

datatype exn =
    RuntimeError string
  | AttributeError string
  | TypeError string
  | KeyError string
  | IndexError string
  | PlainException string
  | OtherError string

text \<open>
  The optimizer is an external torch object. Its observable state is the list of
  parameter groups (only the \<open>'lr'\<close> entry of each group is read or written by the
  engine; \<open>None\<close> is a group without that key) and the history of the update calls
  applied to it, oldest first.
\<close>

datatype opt_call = OptStep | ZeroGrad

record optimizer =
  param_groups :: "real option list"
  opt_calls :: "opt_call list"

definition optimizer_step :: "optimizer \<Rightarrow> optimizer" where
  "optimizer_step opt = opt\<lparr>opt_calls := opt_calls opt @ [OptStep]\<rparr>"

definition optimizer_zero_grad :: "optimizer \<Rightarrow> optimizer" where
  "optimizer_zero_grad opt = opt\<lparr>opt_calls := opt_calls opt @ [ZeroGrad]\<rparr>"

text \<open>
  The per-model configuration object bound as \<open>self._cfg\<close>. The constructor sets the
  attribute only when the keyword \<open>_cfg\<close> is passed, so the attribute can be absent
  (\<open>CfgUnset\<close>), bound to \<open>None\<close> (\<open>CfgNone\<close>) or bound to an object whose
  \<open>frozen_params\<close> attribute may itself be missing.
\<close>

record model_cfg =
  training :: bool
  cfg_frozen_params :: "string list option"

datatype cfg_attr = CfgUnset | CfgNone | Cfg model_cfg

text \<open>
  The wrapped module: its weights (what \<open>state_dict()\<close> returns) and its named
  parameters with their \<open>requires_grad\<close> flag, in \<open>named_parameters()\<close> order.
\<close>

record 'w nn_module =
  weights :: 'w
  named_parameters :: "(string \<times> bool) list"

record ('w, 's) engine =
  cfg_of :: cfg_attr
  module :: "'w nn_module"
  optimizer :: "optimizer option"
  lr_scheduler :: "'s option"
  global_steps :: int
  micro_steps :: int
  global_samples :: int
  tokens_processed :: int
  frozen_params :: "string set"
  mocro_step :: "int option"

text \<open>The global configuration \<open>cfg\<close> (vall_e/config.py is not part of the sources; the
  fields the engine reads are taken as parameters).\<close>

record config =
  batch_size :: int
  gradient_accumulation_steps :: int
  check_for_oom :: bool
  gc_mode :: string
  aggressive_optimizations :: bool
  restart_step_count :: bool
  scheduler_type :: string
  learning_rate :: real
  load_module_only :: bool
  load_states :: bool
  strict_loading :: bool
  load_tag :: "string option"
  ckpt_dir :: "string list"

text \<open>
  A method that mutates \<open>self\<close> and may raise returns either the exception together
  with the engine as the raise left it, or the engine after the call.
\<close>

type_synonym ('w, 's) outcome = "exn \<times> ('w, 's) engine + ('w, 's) engine"

subsection \<open>Engine.step\<close>

text \<open>
  \<^verbatim>\<open>
  def step(self):
      with torch.set_grad_enabled(self.gradient_accumulation_steps > 1):
          self.micro_steps += 1
          self.global_samples += self.batch_size
          if (self.micro_steps + 1) % max(1, self.gradient_accumulation_steps) == 0:
              self.global_steps += 1
              self.optimizer.step()
              self.optimizer.zero_grad()
  \<close>
  Python's \<open>%\<close> with a positive modulus is the floor remainder, as \<open>mod\<close> on
  \<open>int\<close>. With no optimizer, \<open>self.optimizer.step()\<close> raises AttributeError after
  the three counters have been written.
\<close>

definition Engine_step :: "config \<Rightarrow> ('w, 's) engine \<Rightarrow> ('w, 's) outcome" where
  "Engine_step cfg e =
     (let e1 = e\<lparr>micro_steps := micro_steps e + 1\<rparr>;
          e2 = e1\<lparr>global_samples := global_samples e1 + batch_size cfg\<rparr>
      in if (micro_steps e2 + 1) mod max 1 (gradient_accumulation_steps cfg) = 0
         then (let e3 = e2\<lparr>global_steps := global_steps e2 + 1\<rparr>
               in case optimizer e3 of
                    None \<Rightarrow> Inl (AttributeError ''NoneType has no attribute step'', e3)
                  | Some opt \<Rightarrow>
                      Inr (e3\<lparr>optimizer := Some (optimizer_zero_grad (optimizer_step opt))\<rparr>))
         else Inr e2)"

text \<open>\<open>n\<close> consecutive calls of \<open>step()\<close>; the first exception ends the sequence.\<close>

fun steps :: "config \<Rightarrow> nat \<Rightarrow> ('w, 's) engine \<Rightarrow> ('w, 's) outcome" where
  "steps cfg 0 e = Inr e"
| "steps cfg (Suc n) e =
     (case Engine_step cfg e of Inl x \<Rightarrow> Inl x | Inr e' \<Rightarrow> steps cfg n e')"


subsection \<open>Engine.freeze\<close>

text \<open>
  \<^verbatim>\<open>
  def freeze(self, freeze_all=True):
      if self._cfg is None or not hasattr(self._cfg, "frozen_params"):
          raise Exception("freeze_all=False yet self._cfg.frozen_params is None")
      for name, param in self.module.named_parameters():
          if (freeze_all and param.requires_grad) or (not freeze_all and name in self._cfg.frozen_params):
              param.requires_grad_(False)
              self._frozen_params.add(param)
  \<close>
  Parameters are identified by their name. Reading \<open>self._cfg\<close> on an engine built
  without the \<open>_cfg\<close> keyword raises AttributeError.
\<close>

fun freeze_loop ::
  "bool \<Rightarrow> string list \<Rightarrow> (string \<times> bool) list \<Rightarrow> string set
     \<Rightarrow> (string \<times> bool) list \<times> string set" where
  "freeze_loop freeze_all fz [] frozen = ([], frozen)"
| "freeze_loop freeze_all fz ((name, requires_grad) # ps) frozen =
     (if (freeze_all \<and> requires_grad) \<or> (\<not> freeze_all \<and> name \<in> set fz)
      then (case freeze_loop freeze_all fz ps (insert name frozen) of
              (ps', frozen') \<Rightarrow> ((name, False) # ps', frozen'))
      else (case freeze_loop freeze_all fz ps frozen of
              (ps', frozen') \<Rightarrow> ((name, requires_grad) # ps', frozen')))"

definition Engine_freeze :: "bool \<Rightarrow> ('w, 's) engine \<Rightarrow> ('w, 's) outcome" where
  "Engine_freeze freeze_all e =
     (case cfg_of e of
        CfgUnset \<Rightarrow> Inl (AttributeError ''Engine object has no attribute _cfg'', e)
      | CfgNone \<Rightarrow>
          Inl (PlainException ''freeze_all=False yet self._cfg.frozen_params is None'', e)
      | Cfg c \<Rightarrow>
          (case cfg_frozen_params c of
             None \<Rightarrow>
               Inl (PlainException ''freeze_all=False yet self._cfg.frozen_params is None'', e)
           | Some fz \<Rightarrow>
               (case freeze_loop freeze_all fz (named_parameters (module e)) (frozen_params e) of
                  (ps', frozen') \<Rightarrow>
                    Inr (e\<lparr>module := (module e)\<lparr>named_parameters := ps'\<rparr>,
                           frozen_params := frozen'\<rparr>))))"

subsection \<open>Checkpoints\<close>

text \<open>
  A path is the list of its components; \<open>dir / name\<close> appends a component (a tag is
  taken as one component). The file system maps a path to what is stored there: a
  directory, the text of a \<open>latest\<close> pointer, or the dictionary that \<open>torch.save\<close>
  pickled. \<open>Path.exists()\<close> is membership in the domain.

  The saved dictionary has the keys \<open>module\<close>, \<open>optimizer\<close>, \<open>lr_scheduler\<close> and
  \<open>stats\<close>; the loader also accepts a dictionary without \<open>stats\<close> that holds the
  four counters at top level, so every key is optional here (\<open>None\<close>: key absent).
  The value stored under \<open>optimizer\<close> and \<open>lr_scheduler\<close> may itself be \<open>None\<close>.
\<close>

type_synonym path = "string list"

record ('w, 's) checkpoint =
  ck_module :: "'w option"
  ck_optimizer :: "optimizer option option"
  ck_lr_scheduler :: "'s option option"
  ck_stats :: "(string \<times> int) list option"
  ck_counters :: "(string \<times> int) list"

datatype ('w, 's) stored_file =
  TextFile string | StateFile "('w, 's) checkpoint" | Directory

type_synonym ('w, 's) filesystem = "path \<rightharpoonup> ('w, 's) stored_file"

text \<open>
  \<open>Path.mkdir(parents=True, exist_ok=True)\<close>: every missing directory on the way is
  created; a component that exists and is not a directory raises. Opening a path for
  writing raises when the path is a directory and otherwise stores the new content.
\<close>

fun mkdir_parents ::
  "('w, 's) filesystem \<Rightarrow> path \<Rightarrow> string list \<Rightarrow> exn \<times> ('w, 's) filesystem + ('w, 's) filesystem"
where
  "mkdir_parents fs done [] = Inr fs"
| "mkdir_parents fs done (c # cs) =
     (case fs (done @ [c]) of
        None \<Rightarrow> mkdir_parents (fs(done @ [c] \<mapsto> Directory)) (done @ [c]) cs
      | Some Directory \<Rightarrow> mkdir_parents fs (done @ [c]) cs
      | Some _ \<Rightarrow> Inl (OtherError ''FileExistsError'', fs))"

definition write_file ::
  "('w, 's) filesystem \<Rightarrow> path \<Rightarrow> ('w, 's) stored_file
     \<Rightarrow> exn \<times> ('w, 's) filesystem + ('w, 's) filesystem" where
  "write_file fs p content =
     (case fs p of
        Some Directory \<Rightarrow> Inl (OtherError ''IsADirectoryError'', fs)
      | _ \<Rightarrow> Inr (fs(p \<mapsto> content)))"

text \<open>
  \<^verbatim>\<open>
  def save_checkpoint(self, save_dir, tag ):
      save_path = save_dir / tag / "state.pth"
      save_path.parent.mkdir(parents=True, exist_ok=True)
      torch.save({
          "module": self.module.state_dict(),
          "optimizer": self.optimizer.state_dict() if self.optimizer is not None else None,
          "lr_scheduler": self.lr_scheduler.state_dict() if self.lr_scheduler is not None else None,
          "stats": {
              "global_step": self.global_step,
              "micro_step": self.micro_step,
              "global_samples": self.global_samples,
              "tokens_processed": self.tokens_processed,
          }
      }, save_path)
      open(save_dir / "latest", 'w').write( tag )
  \<close>
  \<open>state_dict()\<close> of the module is its weights; that of the optimizer and of the
  scheduler is the whole of their modelled state. With the tag \<open>latest\<close> the directory
  \<open>save_dir/latest\<close> is created for the state file, and opening \<open>save_dir/latest\<close>
  for writing then raises.
\<close>

definition saved_dict :: "('w, 's) engine \<Rightarrow> ('w, 's) checkpoint" where
  "saved_dict e =
     \<lparr>ck_module = Some (weights (module e)),
      ck_optimizer = Some (optimizer e),
      ck_lr_scheduler = Some (lr_scheduler e),
      ck_stats = Some [(''global_step'', global_steps e),
                       (''micro_step'', micro_steps e),
                       (''global_samples'', global_samples e),
                       (''tokens_processed'', tokens_processed e)],
      ck_counters = []\<rparr>"

definition Engine_save_checkpoint ::
  "('w, 's) filesystem \<Rightarrow> path \<Rightarrow> string \<Rightarrow> ('w, 's) engine
     \<Rightarrow> exn \<times> ('w, 's) filesystem + ('w, 's) filesystem" where
  "Engine_save_checkpoint fs save_dir tag e =
     (let save_path = save_dir @ [tag, ''state.pth'']
      in case mkdir_parents fs [] (save_dir @ [tag]) of
           Inl x \<Rightarrow> Inl x
         | Inr fs1 \<Rightarrow>
             (case write_file fs1 save_path (StateFile (saved_dict e)) of
                Inl x \<Rightarrow> Inl x
              | Inr fs2 \<Rightarrow> write_file fs2 (save_dir @ [''latest'']) (TextFile tag)))"

text \<open>
  \<^verbatim>\<open>
  def load_checkpoint(self, load_dir, tag=None, load_module_strict=True,
        load_optimizer_states=True, load_lr_scheduler_states=True, load_module_only=False):
      if tag is None:
          tag_path = load_dir / "latest"
          if not tag_path.exists():
              return
          tag = open(tag_path).read()
      load_path = load_dir / tag / "state.pth"
      if not load_path.exists():
          return
      state = torch.load(load_path, map_location=torch.device(cfg.device))
      self.global_steps = state['stats']['global_step'] if 'stats' in state else state['global_step']
      self.micro_steps = state['stats']['micro_step'] if 'stats' in state else state['micro_step']
      self.global_samples = state['stats']['global_samples'] if 'stats' in state else state['global_samples']
      self.tokens_processed = state['stats']['tokens_processed'] if 'stats' in state else state['tokens_processed']
      self.module.load_state_dict(state['module'])
      load_optimizer_states = load_optimizer_states and self.optimizer is not None and 'optimizer' in state
      load_lr_scheduler_states = load_lr_scheduler_states and self.lr_scheduler is not None and 'lr_scheduler' in state
      if load_optimizer_states:
          self.optimizer.load_state_dict(state['optimizer'], map_location=torch.device(cfg.device))
      if load_lr_scheduler_states:
          self.lr_scheduler.load_state_dict(state['lr_scheduler'], map_location=torch.device(cfg.device))
  \<close>
  A missing key raises KeyError at the statement that reads it, after the earlier
  assignments have taken effect. \<open>load_state_dict\<close> of a torch optimizer and of a
  torch scheduler takes the state dictionary and no keyword \<open>map_location\<close>: the two
  calls above raise TypeError when they are reached, whatever the stored state is, and
  install nothing. Reading a directory or a pickled file as the text of the pointer, or
  a directory or a text file as a pickle, raises as well.
\<close>

definition state_counter :: "('w, 's) checkpoint \<Rightarrow> string \<Rightarrow> exn + int" where
  "state_counter state key =
     (case ck_stats state of
        Some stats \<Rightarrow>
          (case map_of stats key of Some v \<Rightarrow> Inr v | None \<Rightarrow> Inl (KeyError key))
      | None \<Rightarrow>
          (case map_of (ck_counters state) key of Some v \<Rightarrow> Inr v | None \<Rightarrow> Inl (KeyError key)))"

definition restore_optimizer ::
  "bool \<Rightarrow> ('w, 's) checkpoint \<Rightarrow> ('w, 's) engine \<Rightarrow> ('w, 's) outcome" where
  "restore_optimizer load_optimizer_states state e =
     (if load_optimizer_states
      then (case ck_optimizer state of
              None \<Rightarrow> Inl (KeyError ''optimizer'', e)
            | Some _ \<Rightarrow>
                Inl (TypeError ''load_state_dict() got an unexpected keyword argument map_location'',
                     e))
      else Inr e)"

definition restore_lr_scheduler ::
  "bool \<Rightarrow> ('w, 's) checkpoint \<Rightarrow> ('w, 's) engine \<Rightarrow> ('w, 's) outcome" where
  "restore_lr_scheduler load_lr_scheduler_states state e =
     (if load_lr_scheduler_states
      then (case ck_lr_scheduler state of
              None \<Rightarrow> Inl (KeyError ''lr_scheduler'', e)
            | Some _ \<Rightarrow>
                Inl (TypeError ''load_state_dict() got an unexpected keyword argument map_location'',
                     e))
      else Inr e)"

definition restore_state ::
  "bool \<Rightarrow> bool \<Rightarrow> ('w, 's) checkpoint \<Rightarrow> ('w, 's) engine \<Rightarrow> ('w, 's) outcome" where
  "restore_state load_optimizer_states load_lr_scheduler_states state e =
     (case state_counter state ''global_step'' of
        Inl x \<Rightarrow> Inl (x, e)
      | Inr v1 \<Rightarrow>
     (let e1 = e\<lparr>global_steps := v1\<rparr> in
      case state_counter state ''micro_step'' of
        Inl x \<Rightarrow> Inl (x, e1)
      | Inr v2 \<Rightarrow>
     (let e2 = e1\<lparr>micro_steps := v2\<rparr> in
      case state_counter state ''global_samples'' of
        Inl x \<Rightarrow> Inl (x, e2)
      | Inr v3 \<Rightarrow>
     (let e3 = e2\<lparr>global_samples := v3\<rparr> in
      case state_counter state ''tokens_processed'' of
        Inl x \<Rightarrow> Inl (x, e3)
      | Inr v4 \<Rightarrow>
     (let e4 = e3\<lparr>tokens_processed := v4\<rparr> in
      case ck_module state of
        None \<Rightarrow> Inl (KeyError ''module'', e4)
      | Some w \<Rightarrow>
     (let e5 = e4\<lparr>module := (module e4)\<lparr>weights := w\<rparr>\<rparr>;
          load_optimizer_states' =
            (load_optimizer_states \<and> optimizer e5 \<noteq> None \<and> ck_optimizer state \<noteq> None);
          load_lr_scheduler_states' =
            (load_lr_scheduler_states \<and> lr_scheduler e5 \<noteq> None
               \<and> ck_lr_scheduler state \<noteq> None)
      in case restore_optimizer load_optimizer_states' state e5 of
           Inl x \<Rightarrow> Inl x
         | Inr e6 \<Rightarrow> restore_lr_scheduler load_lr_scheduler_states' state e6))))))"

definition Engine_load_checkpoint ::
  "('w, 's) filesystem \<Rightarrow> path \<Rightarrow> string option \<Rightarrow> bool \<Rightarrow> bool \<Rightarrow> bool \<Rightarrow> bool
     \<Rightarrow> ('w, 's) engine \<Rightarrow> ('w, 's) outcome" where
  "Engine_load_checkpoint fs load_dir tag load_module_strict load_optimizer_states
       load_lr_scheduler_states module_only e =
     (case (case tag of
              Some t \<Rightarrow> Inr (Some t)
            | None \<Rightarrow>
                (case fs (load_dir @ [''latest'']) of
                   None \<Rightarrow> Inr None
                 | Some (TextFile t) \<Rightarrow> Inr (Some t)
                 | Some (StateFile _) \<Rightarrow> Inl (OtherError ''UnicodeDecodeError'')
                 | Some Directory \<Rightarrow> Inl (OtherError ''IsADirectoryError''))) of
        Inl x \<Rightarrow> Inl (x, e)
      | Inr None \<Rightarrow> Inr e
      | Inr (Some t) \<Rightarrow>
          (case fs (load_dir @ [t, ''state.pth'']) of
             None \<Rightarrow> Inr e
           | Some (TextFile _) \<Rightarrow> Inl (OtherError ''UnpicklingError'', e)
           | Some Directory \<Rightarrow> Inl (OtherError ''IsADirectoryError'', e)
           | Some (StateFile state) \<Rightarrow>
               restore_state load_optimizer_states load_lr_scheduler_states state e))"

subsection \<open>The engine collection\<close>

text \<open>
  \<open>Engines\<close> is a \<open>dict\<close> from names to engines, iterated in insertion order, with the
  four aggregate counters that \<open>setup()\<close> sets to 0.
\<close>

record ('w, 's) engines =
  members :: "(string \<times> ('w, 's) engine) list"
  agg_global_step :: int
  agg_micro_step :: int
  agg_batch_size :: int
  agg_global_samples :: int

type_synonym ('w, 's) engines_outcome = "exn \<times> ('w, 's) engines + ('w, 's) engines"

text \<open>A \<open>for name, engine in self.items()\<close> loop whose body mutates the engine and may
  raise: the exception leaves the engines visited so far as they then are.\<close>

fun for_each ::
  "(string \<Rightarrow> ('w, 's) engine \<Rightarrow> ('w, 's) outcome) \<Rightarrow> (string \<times> ('w, 's) engine) list
     \<Rightarrow> exn \<times> (string \<times> ('w, 's) engine) list + (string \<times> ('w, 's) engine) list" where
  "for_each body [] = Inr []"
| "for_each body ((name, e) # rest) =
     (case body name e of
        Inl (x, e') \<Rightarrow> Inl (x, (name, e') # rest)
      | Inr e' \<Rightarrow>
          (case for_each body rest of
             Inl (x, rest') \<Rightarrow> Inl (x, (name, e') # rest')
           | Inr rest' \<Rightarrow> Inr ((name, e') # rest')))"

text \<open>
  \<^verbatim>\<open>
  @property
  def _training(self):
      if not hasattr(self, "_cfg"):
          return True
      return self._cfg.training
  \<close>
\<close>

definition Engine_training :: "('w, 's) engine \<Rightarrow> exn + bool" where
  "Engine_training e =
     (case cfg_of e of
        CfgUnset \<Rightarrow> Inr True
      | CfgNone \<Rightarrow> Inl (AttributeError ''NoneType has no attribute training'')
      | Cfg c \<Rightarrow> Inr (training c))"

text \<open>
  \<^verbatim>\<open>
  def get_lr(self):
      lrs = []
      for param_group in self.optimizer.param_groups:
          if 'lr' in param_group:
              lrs.append(param_group['lr'])
      return lrs

  def set_lr(self, lr):
      for param_group in self.optimizer.param_groups:
          if 'lr' in param_group:
              param_group['lr'] = lr
  \<close>
\<close>

definition Engine_get_lr :: "('w, 's) engine \<Rightarrow> exn + real list" where
  "Engine_get_lr e =
     (case optimizer e of
        None \<Rightarrow> Inl (AttributeError ''NoneType has no attribute param_groups'')
      | Some opt \<Rightarrow> Inr (concat (map (\<lambda>g. case g of None \<Rightarrow> [] | Some lr \<Rightarrow> [lr])
                                   (param_groups opt))))"

definition Engine_set_lr :: "real \<Rightarrow> ('w, 's) engine \<Rightarrow> ('w, 's) outcome" where
  "Engine_set_lr lr e =
     (case optimizer e of
        None \<Rightarrow> Inl (AttributeError ''NoneType has no attribute param_groups'', e)
      | Some opt \<Rightarrow>
          Inr (e\<lparr>optimizer := Some (opt\<lparr>param_groups :=
                 map (\<lambda>g. case g of None \<Rightarrow> None | Some _ \<Rightarrow> Some lr) (param_groups opt)\<rparr>)\<rparr>))"

text \<open>
  \<^verbatim>\<open>
  def set_lr(self, lr):
      for engine in self.values():
          if not engine._training:
              continue
          engine.set_lr(lr)

  def _update(self):
      for engine in self.values():
          self._global_step = max(self._global_step, engine.global_step)
          self._micro_step = max(self._micro_step, engine.micro_step)
          self._batch_size = max(self._batch_size, engine.batch_size)
          self._global_samples = max(self._global_samples, engine.global_samples)
  \<close>
\<close>

definition Engines_set_lr :: "real \<Rightarrow> ('w, 's) engines \<Rightarrow> ('w, 's) engines_outcome" where
  "Engines_set_lr lr E =
     (case for_each (\<lambda>name engine.
               case Engine_training engine of
                 Inl x \<Rightarrow> Inl (x, engine)
               | Inr t \<Rightarrow> if \<not> t then Inr engine else Engine_set_lr lr engine)
             (members E) of
        Inl (x, ms) \<Rightarrow> Inl (x, E\<lparr>members := ms\<rparr>)
      | Inr ms \<Rightarrow> Inr (E\<lparr>members := ms\<rparr>))"

definition Engines_update :: "config \<Rightarrow> ('w, 's) engines \<Rightarrow> ('w, 's) engines" where
  "Engines_update cfg E =
     foldl (\<lambda>E' (name, engine).
              E'\<lparr>agg_global_step := max (agg_global_step E') (global_steps engine),
                 agg_micro_step := max (agg_micro_step E') (micro_steps engine),
                 agg_batch_size := max (agg_batch_size E') (batch_size cfg),
                 agg_global_samples := max (agg_global_samples E') (global_samples engine)\<rparr>)
           E (members E)"

text \<open>
  \<^verbatim>\<open>
  def load_checkpoint(self, tag=None):
      if not tag:
          tag = cfg.trainer.load_tag
      for name, engine in self.items():
          load_dir = cfg.ckpt_dir / name
          engine.load_checkpoint(
              tag=tag,
              load_dir=load_dir,
              load_module_strict=cfg.trainer.strict_loading,
              load_optimizer_states=False if cfg.trainer.load_module_only else cfg.trainer.load_states,
              load_lr_scheduler_states=False if cfg.trainer.load_module_only else cfg.trainer.load_states,
              load_module_only=cfg.trainer.load_module_only,
          )
          if cfg.trainer.restart_step_count:
              engine.global_steps = 0
              engine.mocro_step = 0
              engine.global_samples = 0
              engine.tokens_processed = 0
      if cfg.hyperparameters.scheduler_type == "":
          self.set_lr(cfg.hyperparameters.learning_rate)
      self._update()
  \<close>
  \<open>not tag\<close> holds for \<open>None\<close> and for the empty string. The assignment to
  \<open>engine.mocro_step\<close> creates an attribute of that name on the engine.
\<close>

definition effective_tag :: "config \<Rightarrow> string option \<Rightarrow> string option" where
  "effective_tag cfg tag = (if tag = None \<or> tag = Some [] then load_tag cfg else tag)"

definition load_one ::
  "config \<Rightarrow> ('w, 's) filesystem \<Rightarrow> string option \<Rightarrow> string \<Rightarrow> ('w, 's) engine
     \<Rightarrow> ('w, 's) outcome" where
  "load_one cfg fs tag name engine =
     Engine_load_checkpoint fs (ckpt_dir cfg @ [name]) tag (strict_loading cfg)
       (if load_module_only cfg then False else load_states cfg)
       (if load_module_only cfg then False else load_states cfg)
       (load_module_only cfg) engine"

definition Engines_load_checkpoint ::
  "config \<Rightarrow> ('w, 's) filesystem \<Rightarrow> string option \<Rightarrow> ('w, 's) engines
     \<Rightarrow> ('w, 's) engines_outcome" where
  "Engines_load_checkpoint cfg fs tag E =
     (let tag' = effective_tag cfg tag in
      case for_each (\<lambda>name engine.
               case load_one cfg fs tag' name engine of
                 Inl x \<Rightarrow> Inl x
               | Inr e1 \<Rightarrow>
                   if restart_step_count cfg
                   then Inr (e1\<lparr>global_steps := 0, mocro_step := Some 0,
                                global_samples := 0, tokens_processed := 0\<rparr>)
                   else Inr e1)
             (members E) of
        Inl (x, ms) \<Rightarrow> Inl (x, E\<lparr>members := ms\<rparr>)
      | Inr ms \<Rightarrow>
          (case (if scheduler_type cfg = [] then Engines_set_lr (learning_rate cfg) (E\<lparr>members := ms\<rparr>)
                 else Inr (E\<lparr>members := ms\<rparr>)) of
             Inl x \<Rightarrow> Inl x
           | Inr E2 \<Rightarrow> Inr (Engines_update cfg E2)))"

section \<open>The coordinator's step (Engines.step)\<close>

text \<open>
  A batch is a \<open>dict\<close> of named fields, each a list with one entry per sample. The
  feeder is a callable with state of its own (\<open>'f\<close>); it raises, or returns \<open>None\<close>
  (skip this engine) or the pair of a loss \<open>'l\<close> and a dictionary of statistics. The
  keys of that dictionary are declared \<open>str\<close>; a key of another type is kept apart,
  since the step later passes the dictionary as keyword arguments. What the step does
  to the world outside the engines is recorded as a trace of events: the calls of the
  feeder with the batch they were given, \<open>print\<close>, \<open>do_gc()\<close>,
  \<open>self.save_checkpoint()\<close> and \<open>all_reduce\<close>.

  Taken as parameters: the feeder, the outcome of \<open>engine.backward(loss)\<close> (autograd),
  what \<open>self.gather_attribute("scalar")\<close> collects from the modules once the feeder
  has run, \<open>world_size()\<close>, and what the other processes add to \<open>n_ooms\<close> in the
  two \<open>all_reduce\<close> calls.
\<close>

type_synonym 'b batch = "(string \<times> 'b list) list"

datatype stat_key = StrKey string | OtherKey nat

type_synonym stats_dict = "(stat_key \<times> real) list"

type_synonym 'l feeder_value = "'l \<times> stats_dict"

datatype 'l feeder_result = Raises exn | Returns "'l feeder_value option"

datatype 'b event =
  FeederCall string "'b batch" | Print string | GC | SaveCheckpoint | AllReduce

record ('w, 's, 'f, 'b, 'l) step_env =
  feeder :: "'f \<Rightarrow> ('w, 's) engine \<Rightarrow> 'b batch \<Rightarrow> 'l feeder_result \<times> 'f"
  backward :: "('w, 's) engine \<Rightarrow> 'l \<Rightarrow> exn option"
  gather_scalar :: "'f \<Rightarrow> stats_dict"
  world_size :: int
  forward_ooms_elsewhere :: nat
  backward_ooms_elsewhere :: nat

record 'l engine_stats =
  stat_loss :: 'l
  stat_lr :: real
  stat_grad_norm :: real
  stat_engine_step :: int
  stat_samples_processed :: int
  stat_tokens_processed :: int
  stat_extra :: "(string \<times> real) list"

record 'l step_stats =
  per_engine :: "(string \<times> 'l engine_stats) list"
  it :: int

text \<open>The local variables of \<open>Engines.step\<close> that outlive one engine's turn.\<close>

record ('f, 'b, 'l) step_vars =
  v_batch :: "'b batch"
  v_feeder :: 'f
  v_trace :: "'b event list"
  v_stats :: "(string \<times> 'l engine_stats) list"

definition shrink_batch :: "'b batch \<Rightarrow> 'b batch" where
  \<comment> \<open>\<open>for k in batch: batch[k] = batch[k][:-1]\<close>\<close>
  "shrink_batch batch = map (\<lambda>(k, v). (k, butlast v)) batch"

definition log_event :: "'b event \<Rightarrow> ('f, 'b, 'l) step_vars \<Rightarrow> ('f, 'b, 'l) step_vars" where
  "log_event ev vars = vars\<lparr>v_trace := v_trace vars @ [ev]\<rparr>"

fun dict_set :: "'k \<Rightarrow> 'v \<Rightarrow> ('k \<times> 'v) list \<Rightarrow> ('k \<times> 'v) list" where
  "dict_set k v [] = [(k, v)]"
| "dict_set k v ((k', v') # d) = (if k = k' then (k, v) # d else (k', v') # dict_set k v d)"

definition dict_merge :: "('k \<times> 'v) list \<Rightarrow> ('k \<times> 'v) list \<Rightarrow> ('k \<times> 'v) list" where
  \<comment> \<open>\<open>a |= b\<close>\<close>
  "dict_merge a b = foldl (\<lambda>d (k, v). dict_set k v d) a b"

text \<open>
  \<open>dict(loss=..., lr=..., grad_norm=..., elapsed_time=..., engine_step=...,
  samples_processed=..., tokens_processed=..., **engine_stats)\<close>: unpacking a
  dictionary into keyword arguments raises TypeError at a key that is not a string and
  at a key that repeats one of the keywords written out.
\<close>

definition fixed_keywords :: "string list" where
  "fixed_keywords = [''loss'', ''lr'', ''grad_norm'', ''elapsed_time'', ''engine_step'',
                     ''samples_processed'', ''tokens_processed'']"

fun keyword_args :: "stats_dict \<Rightarrow> exn + (string \<times> real) list" where
  "keyword_args [] = Inr []"
| "keyword_args ((StrKey k, v) # d) =
     (if k \<in> set fixed_keywords
      then Inl (TypeError ''dict() got multiple values for keyword argument'')
      else (case keyword_args d of Inl x \<Rightarrow> Inl x | Inr kw \<Rightarrow> Inr ((k, v) # kw)))"
| "keyword_args ((OtherKey n, v) # d) = Inl (TypeError ''keywords must be strings'')"

definition call_feeder ::
  "('w, 's, 'f, 'b, 'l) step_env \<Rightarrow> string \<Rightarrow> ('w, 's) engine \<Rightarrow> ('f, 'b, 'l) step_vars
     \<Rightarrow> 'l feeder_result \<times> ('f, 'b, 'l) step_vars" where
  "call_feeder env name engine vars =
     (case feeder env (v_feeder vars) engine (v_batch vars) of
        (r, f') \<Rightarrow> (r, log_event (FeederCall name (v_batch vars)) (vars\<lparr>v_feeder := f'\<rparr>)))"

text \<open>
  \<^verbatim>\<open>
  tries = 4
  n_ooms = torch.zeros([], device=device)
  ...
      while tries >= 0:
          try:
              res = feeder( engine=engine, batch=batch )
              break
          except RuntimeError as e:
              print("Forward", str(e))
              if "out of memory" not in str(e):
                  self.save_checkpoint()
                  raise e
              # shrink batch size until it's happy
              for k in batch:
                  batch[k] = batch[k][:-1]
              if tries <= 0:
                  # trigger OOM
                  n_ooms += 1
              else:
                  # also do GC
                  do_gc()
              continue
  \<close>
  The loop may run forever, so it is a partial function: \<open>None\<close> is "does not
  return". No statement of the loop assigns \<open>tries\<close>; every recursive call passes it
  on unchanged. The result is the exception that left the loop, or \<open>res\<close> (\<open>None\<close>
  when the loop ended without \<open>break\<close> and \<open>res\<close> was never bound) with \<open>n_ooms\<close>.
\<close>

partial_function (option) forward_retry ::
  "('w, 's, 'f, 'b, 'l) step_env \<Rightarrow> string \<Rightarrow> ('w, 's) engine \<Rightarrow> int \<Rightarrow> nat
     \<Rightarrow> ('f, 'b, 'l) step_vars
     \<Rightarrow> (exn \<times> ('f, 'b, 'l) step_vars + 'l feeder_value option option \<times> nat \<times> ('f, 'b, 'l) step_vars) option"
where
  "forward_retry env name engine tries n_ooms vars =
     (if tries \<ge> 0
      then (case call_feeder env name engine vars of
              (Returns res, vars1) \<Rightarrow> Some (Inr (Some res, n_ooms, vars1))
            | (Raises (RuntimeError msg), vars1) \<Rightarrow>
                (let vars2 = log_event (Print (''Forward '' @ msg)) vars1
                 in if \<not> sublist ''out of memory'' msg
                    then Some (Inl (RuntimeError msg, log_event SaveCheckpoint vars2))
                    else (let vars3 = vars2\<lparr>v_batch := shrink_batch (v_batch vars2)\<rparr>
                          in if tries \<le> 0
                             then forward_retry env name engine tries (n_ooms + 1) vars3
                             else forward_retry env name engine tries n_ooms (log_event GC vars3)))
            | (Raises x, vars1) \<Rightarrow> Some (Inl (x, vars1)))
      else Some (Inr (None, n_ooms, vars)))"

text \<open>
  \<^verbatim>\<open>
  if not cfg.trainer.check_for_oom:
      res = feeder( engine=engine, batch=batch )
  else:
      while tries >= 0: ...
      if world_size() > 1:
          all_reduce(n_ooms)
      if n_ooms.item() > 0:
          self.save_checkpoint()
          raise RuntimeError("Out of memory during forward pass!")
  \<close>
\<close>

definition synchronize_ooms ::
  "int \<Rightarrow> nat \<Rightarrow> nat \<Rightarrow> ('f, 'b, 'l) step_vars \<Rightarrow> nat \<times> ('f, 'b, 'l) step_vars" where
  "synchronize_ooms ws elsewhere n_ooms vars =
     (if ws > 1 then (n_ooms + elsewhere, log_event AllReduce vars) else (n_ooms, vars))"

definition forward_phase ::
  "('w, 's, 'f, 'b, 'l) step_env \<Rightarrow> config \<Rightarrow> string \<Rightarrow> ('w, 's) engine
     \<Rightarrow> ('f, 'b, 'l) step_vars
     \<Rightarrow> (exn \<times> ('f, 'b, 'l) step_vars + 'l feeder_value option option \<times> ('f, 'b, 'l) step_vars) option" where
  "forward_phase env cfg name engine vars =
     (if \<not> check_for_oom cfg
      then (case call_feeder env name engine vars of
              (Returns res, vars1) \<Rightarrow> Some (Inr (Some res, vars1))
            | (Raises x, vars1) \<Rightarrow> Some (Inl (x, vars1)))
      else (case forward_retry env name engine 4 0 vars of
              None \<Rightarrow> None
            | Some (Inl x) \<Rightarrow> Some (Inl x)
            | Some (Inr (res, n_ooms, vars1)) \<Rightarrow>
                (case synchronize_ooms (world_size env) (forward_ooms_elsewhere env) n_ooms vars1 of
                   (n_ooms', vars2) \<Rightarrow>
                     if n_ooms' > 0
                     then Some (Inl (RuntimeError ''Out of memory during forward pass!'',
                                     log_event SaveCheckpoint vars2))
                     else Some (Inr (res, vars2)))))"

text \<open>
  \<^verbatim>\<open>
  if not cfg.trainer.check_for_oom:
      engine.backward(loss)
  else:
      try:
          engine.backward(loss)
      except RuntimeError as e:
          print("Backwards:", str(e))
          if "out of memory" not in str(e):
              self.save_checkpoint()
              raise e
          n_ooms += 1
      if world_size() > 1:
          all_reduce(n_ooms)
      if n_ooms.item() > 0:
          self.save_checkpoint()
          raise RuntimeError("Out of memory during backwards pass!")
  \<close>
\<close>

definition backward_phase ::
  "('w, 's, 'f, 'b, 'l) step_env \<Rightarrow> config \<Rightarrow> ('w, 's) engine \<Rightarrow> 'l
     \<Rightarrow> ('f, 'b, 'l) step_vars \<Rightarrow> exn \<times> ('f, 'b, 'l) step_vars + ('f, 'b, 'l) step_vars" where
  "backward_phase env cfg engine loss vars =
     (if \<not> check_for_oom cfg
      then (case backward env engine loss of None \<Rightarrow> Inr vars | Some x \<Rightarrow> Inl (x, vars))
      else (case (case backward env engine loss of
                    None \<Rightarrow> Inr (0, vars)
                  | Some (RuntimeError msg) \<Rightarrow>
                      (let vars1 = log_event (Print (''Backwards: '' @ msg)) vars
                       in if \<not> sublist ''out of memory'' msg
                          then Inl (RuntimeError msg, log_event SaveCheckpoint vars1)
                          else Inr (1, vars1))
                  | Some x \<Rightarrow> Inl (x, vars)) of
              Inl x \<Rightarrow> Inl x
            | Inr (n_ooms, vars1) \<Rightarrow>
                (case synchronize_ooms (world_size env) (backward_ooms_elsewhere env) n_ooms vars1 of
                   (n_ooms', vars2) \<Rightarrow>
                     if n_ooms' > 0
                     then Inl (RuntimeError ''Out of memory during backwards pass!'',
                               log_event SaveCheckpoint vars2)
                     else Inr vars2)))"

text \<open>
  The body of \<open>for name, engine in self.items()\<close>:
  \<^verbatim>\<open>
  if not engine._training:
      continue
  device = engine.device
  if cfg.trainer.gc_mode == 'substep':
      do_gc()
  start_time = time.time()
  tries = 4
  n_ooms = torch.zeros([], device=device)
  batch = to_device(batch, device)
  (forward, see above)
  if res is None:
      continue
  loss, engine_stats = res
  engine_stats |= self.gather_attribute("scalar")
  n_ooms = torch.zeros([], device=device)
  if cfg.trainer.aggressive_optimizations:
      batch = to_device(batch, 'cpu')
  (backward, see above)
  engine.step()
  elapsed_time = time.time() - start_time
  total_elapsed_time += elapsed_time
  stats.update(flatten_dict({ name.split("-")[0]: dict(
      loss=loss.item(), lr=engine.get_lr()[0], grad_norm=engine.get_global_grad_norm(),
      elapsed_time=elapsed_time, engine_step=engine.global_step,
      samples_processed=engine.global_samples, tokens_processed=engine.tokens_processed,
      **engine_stats ) }))
  \<close>
  \<open>engine.device\<close> is \<open>next(self.module.parameters()).device\<close>, which raises
  StopIteration for a module without parameters. Moving the batch between devices does
  not change its contents. \<open>get_global_grad_norm()\<close> returns \<open>0.0\<close>. The keyword
  values are evaluated in the order written, so a failing \<open>engine.get_lr()[0]\<close> comes
  before the TypeError of the unpacked statistics. Wall-clock times are left out of the
  statistics.
\<close>

definition step_engine ::
  "('w, 's, 'f, 'b, 'l) step_env \<Rightarrow> config \<Rightarrow> string \<Rightarrow> ('w, 's) engine
     \<Rightarrow> ('f, 'b, 'l) step_vars
     \<Rightarrow> (exn \<times> ('w, 's) engine \<times> ('f, 'b, 'l) step_vars
          + ('w, 's) engine \<times> ('f, 'b, 'l) step_vars) option" where
  "step_engine env cfg name engine vars =
     (case Engine_training engine of
        Inl x \<Rightarrow> Some (Inl (x, engine, vars))
      | Inr t \<Rightarrow>
          if \<not> t then Some (Inr (engine, vars))
          else if named_parameters (module engine) = []
          then Some (Inl (OtherError ''StopIteration'', engine, vars))
          else
            (let vars0 = (if gc_mode cfg = ''substep'' then log_event GC vars else vars)
             in case forward_phase env cfg name engine vars0 of
                  None \<Rightarrow> None
                | Some (Inl (x, vars1)) \<Rightarrow> Some (Inl (x, engine, vars1))
                | Some (Inr (None, vars1)) \<Rightarrow>
                    Some (Inl (OtherError ''UnboundLocalError'', engine, vars1))
                | Some (Inr (Some None, vars1)) \<Rightarrow> Some (Inr (engine, vars1))
                | Some (Inr (Some (Some (loss, stats0)), vars1)) \<Rightarrow>
                    (let engine_stats = dict_merge stats0 (gather_scalar env (v_feeder vars1))
                     in case backward_phase env cfg engine loss vars1 of
                          Inl (x, vars2) \<Rightarrow> Some (Inl (x, engine, vars2))
                        | Inr vars2 \<Rightarrow>
                            (case Engine_step cfg engine of
                               Inl (x, engine') \<Rightarrow> Some (Inl (x, engine', vars2))
                             | Inr engine' \<Rightarrow>
                                 (case Engine_get_lr engine' of
                                    Inl x \<Rightarrow> Some (Inl (x, engine', vars2))
                                  | Inr [] \<Rightarrow>
                                      Some (Inl (IndexError ''list index out of range'',
                                                 engine', vars2))
                                  | Inr (lr # _) \<Rightarrow>
                                      (case keyword_args engine_stats of
                                         Inl x \<Rightarrow> Some (Inl (x, engine', vars2))
                                       | Inr kw \<Rightarrow>
                                           Some (Inr (engine',
                                             vars2\<lparr>v_stats :=
                                               dict_set (takeWhile (\<lambda>c. c \<noteq> CHR ''-'') name)
                                                 \<lparr>stat_loss = loss, stat_lr = lr,
                                                  stat_grad_norm = 0,
                                                  stat_engine_step = global_steps engine',
                                                  stat_samples_processed =
                                                    global_samples engine',
                                                  stat_tokens_processed =
                                                    tokens_processed engine',
                                                  stat_extra = kw\<rparr>
                                                 (v_stats vars2)\<rparr>))))))))"

fun step_loop ::
  "('w, 's, 'f, 'b, 'l) step_env \<Rightarrow> config \<Rightarrow> (string \<times> ('w, 's) engine) list
     \<Rightarrow> ('f, 'b, 'l) step_vars
     \<Rightarrow> (exn \<times> (string \<times> ('w, 's) engine) list \<times> ('f, 'b, 'l) step_vars
          + (string \<times> ('w, 's) engine) list \<times> ('f, 'b, 'l) step_vars) option" where
  "step_loop env cfg [] vars = Some (Inr ([], vars))"
| "step_loop env cfg ((name, e) # rest) vars =
     (case step_engine env cfg name e vars of
        None \<Rightarrow> None
      | Some (Inl (x, e', vars')) \<Rightarrow> Some (Inl (x, (name, e') # rest, vars'))
      | Some (Inr (e', vars')) \<Rightarrow>
          (case step_loop env cfg rest vars' of
             None \<Rightarrow> None
           | Some (Inl (x, rest', vars'')) \<Rightarrow> Some (Inl (x, (name, e') # rest', vars''))
           | Some (Inr (rest', vars'')) \<Rightarrow> Some (Inr ((name, e') # rest', vars''))))"

text \<open>
  \<^verbatim>\<open>
  def step(self, batch, feeder: TrainFeeder = default_feeder):
      total_elapsed_time = 0
      stats: Any = dict()
      if cfg.trainer.gc_mode == 'step':
          do_gc()
      for name, engine in self.items():
          ...
      self._update()
      if len(self.keys()) > 1:
          stats["elapsed_time"] = total_elapsed_time
      stats["it"] = self.global_step
      return stats
  \<close>
  The result is \<open>None\<close> when the call does not return; otherwise the exception that
  left it, or the statistics, each with the collection and the local variables as the
  call left them.
\<close>

definition Engines_step ::
  "('w, 's, 'f, 'b, 'l) step_env \<Rightarrow> config \<Rightarrow> 'b batch \<Rightarrow> 'f \<Rightarrow> ('w, 's) engines
     \<Rightarrow> (exn \<times> ('w, 's) engines \<times> ('f, 'b, 'l) step_vars
          + 'l step_stats \<times> ('w, 's) engines \<times> ('f, 'b, 'l) step_vars) option" where
  "Engines_step env cfg batch f E =
     (let vars0 = \<lparr>v_batch = batch, v_feeder = f,
                   v_trace = (if gc_mode cfg = ''step'' then [GC] else []),
                   v_stats = []\<rparr>
      in case step_loop env cfg (members E) vars0 of
           None \<Rightarrow> None
         | Some (Inl (x, ms, vars)) \<Rightarrow> Some (Inl (x, E\<lparr>members := ms\<rparr>, vars))
         | Some (Inr (ms, vars)) \<Rightarrow>
             (let E' = Engines_update cfg (E\<lparr>members := ms\<rparr>)
              in Some (Inr (\<lparr>per_engine = v_stats vars, it = agg_global_step E'\<rparr>, E', vars))))"




section \<open>Distributed context (vall_e/utils/distributed.py)\<close>

text \<open>
  \<^verbatim>\<open>
  _distributed_initialized = False
  def init_distributed( fn, *args, **kwargs ):
      fn(*args, **kwargs)
      _distributed_initialized = True

  def distributed_initialized():
      return _distributed_initialized
  \<close>
  The process state of the module: its global flag, the process environment, whether
  the cached \<open>fix_unset_envs\<close> has run, and the state \<open>'x\<close> of whatever the callable
  passed to \<open>init_distributed\<close> acts on (the torch process group). The function has no
  \<open>global\<close> declaration, so its assignment binds a local name.
\<close>

record 'x dist_state =
  distributed_initialized_global :: bool
  environ :: "(string \<times> string) list"
  envs_fixed :: bool
  external :: 'x

definition module_loaded :: "(string \<times> string) list \<Rightarrow> 'x \<Rightarrow> 'x dist_state" where
  "module_loaded env x =
     \<lparr>distributed_initialized_global = False, environ = env, envs_fixed = False,
      external = x\<rparr>"

definition init_distributed ::
  "('x \<Rightarrow> exn \<times> 'x + 'x) \<Rightarrow> 'x dist_state \<Rightarrow> exn \<times> 'x dist_state + 'x dist_state" where
  "init_distributed fn s =
     (case fn (external s) of
        Inl (ex, x') \<Rightarrow> Inl (ex, s\<lparr>external := x'\<rparr>)
      | Inr x' \<Rightarrow>
          (let local_distributed_initialized = True
           in Inr (s\<lparr>external := x'\<rparr>)))"

definition distributed_initialized :: "'x dist_state \<Rightarrow> bool" where
  "distributed_initialized s = distributed_initialized_global s"

text \<open>
  \<^verbatim>\<open>
  @cache
  def fix_unset_envs():
      envs = dict(RANK="0", WORLD_SIZE="1", MASTER_ADDR="localhost",
                  MASTER_PORT=str(get_free_port()), LOCAL_RANK="0")
      for key in envs:
          value = os.getenv(key)
          if value is not None:
              return
      for key, value in envs.items():
          os.environ[key] = value
  \<close>
  The free port is chosen by the operating system and is a parameter.
\<close>

fun setenv :: "string \<Rightarrow> string \<Rightarrow> (string \<times> string) list \<Rightarrow> (string \<times> string) list" where
  "setenv k v [] = [(k, v)]"
| "setenv k v ((k', v') # env) = (if k = k' then (k, v) # env else (k', v') # setenv k v env)"

definition fix_unset_envs :: "string \<Rightarrow> 'x dist_state \<Rightarrow> 'x dist_state" where
  "fix_unset_envs port s =
     (if envs_fixed s then s
      else (let envs = [(''RANK'', ''0''), (''WORLD_SIZE'', ''1''),
                        (''MASTER_ADDR'', ''localhost''), (''MASTER_PORT'', port),
                        (''LOCAL_RANK'', ''0'')];
                s1 = s\<lparr>envs_fixed := True\<rparr>
            in if list_ex (\<lambda>(key, _). map_of (environ s) key \<noteq> None) envs then s1
               else s1\<lparr>environ := foldl (\<lambda>env (key, v). setenv key v env) (environ s) envs\<rparr>))"

text \<open>The states a process can reach from the freshly imported module by calling the
  module's state-changing functions, with any callable and any port.\<close>

inductive reachable :: "'x dist_state \<Rightarrow> bool" where
  start: "reachable (module_loaded env x)"
| init_returns: "reachable s \<Longrightarrow> init_distributed fn s = Inr s' \<Longrightarrow> reachable s'"
| init_raises: "reachable s \<Longrightarrow> init_distributed fn s = Inl (ex, s') \<Longrightarrow> reachable s'"
| fix_envs: "reachable s \<Longrightarrow> reachable (fix_unset_envs port s)"

section \<open>Sampling: the time slice (vall_e/models/base.py)\<close>

text \<open>
  \<^verbatim>\<open>
  # (NAR) return the entire generated response
  if quant_levels is not None:
      logits = [ logit[-l:] for logit, l in zip(logits, map(len, resps_list)) ]
  # (AR chunkwise) return the last chunkwise piece
  elif self.causal and self.recurrent_chunk_size > 0:
      logits = [ logit[-l:] for logit, l in zip(logits, self.recurrent_chunk_size) ]
  # (AR) return just the last code
  else:
      logits = [ logit[-1:] for logit in logits ]
  \<close>
  A logit tensor is the list of its rows. \<open>recurrent_chunk_size\<close> is declared
  \<open>-> int\<close> and is compared with \<open>0\<close>; \<open>zip\<close> asks each argument for an iterator
  when it is called, and an \<open>int\<close> has none, so the chunkwise branch raises TypeError
  before any slice is taken.
\<close>

definition last_rows :: "nat \<Rightarrow> 'a list \<Rightarrow> 'a list" where
  \<comment> \<open>\<open>x[-l:]\<close>; \<open>x[-0:]\<close> is \<open>x[0:]\<close>, the whole list\<close>
  "last_rows l x = (if l = 0 then x else drop (length x - l) x)"

definition sample_time_slice ::
  "bool \<Rightarrow> int \<Rightarrow> 'q option \<Rightarrow> 'a list list \<Rightarrow> 'r list list \<Rightarrow> exn + 'a list list" where
  "sample_time_slice causal recurrent_chunk_size quant_levels logits resps_list =
     (if quant_levels \<noteq> None
      then Inr (map (\<lambda>(logit, l). last_rows l logit) (zip logits (map length resps_list)))
      else if causal \<and> recurrent_chunk_size > 0
      then Inl (TypeError ''int object is not iterable'')
      else Inr (map (\<lambda>logit. last_rows 1 logit) logits))"

text \<open>What the claim expects of the chunkwise branch: the last
  \<open>recurrent_chunk_size\<close> rows of every sequence.\<close>

definition newest_chunk :: "int \<Rightarrow> 'a list list \<Rightarrow> 'a list list" where
  "newest_chunk recurrent_chunk_size logits =
     map (last_rows (nat recurrent_chunk_size)) logits"

subsection \<open>Concrete values used to instantiate the theorems\<close>

definition example_cfg :: "int \<Rightarrow> int \<Rightarrow> config" where
  "example_cfg n b =
     \<lparr>batch_size = b, gradient_accumulation_steps = n, check_for_oom = True,
      gc_mode = ''step'', aggressive_optimizations = False, restart_step_count = True,
      scheduler_type = ''cosine'', learning_rate = 1, load_module_only = False,
      load_states = True, strict_loading = True, load_tag = None,
      ckpt_dir = [''ckpt'']\<rparr>"

definition example_optimizer :: optimizer where
  "example_optimizer = \<lparr>param_groups = [Some 1], opt_calls = []\<rparr>"

definition fresh_engine :: "(nat list, nat) engine" where
  "fresh_engine =
     \<lparr>cfg_of = CfgUnset,
      module = \<lparr>weights = [1, 2, 3], named_parameters = [(''w'', True), (''b'', False)]\<rparr>,
      optimizer = Some example_optimizer, lr_scheduler = None,
      global_steps = 0, micro_steps = 0, global_samples = 0, tokens_processed = 0,
      frozen_params = {}, mocro_step = None\<rparr>"

definition trained_engine :: "(nat list, nat) engine" where
  "trained_engine =
     fresh_engine\<lparr>module := (module fresh_engine)\<lparr>weights := [4, 5, 6]\<rparr>,
       global_steps := 3, micro_steps := 7, global_samples := 56, tokens_processed := 900\<rparr>"

definition example_fs :: "(nat list, nat) filesystem" where
  "example_fs =
     [[''ckpt''] \<mapsto> Directory, [''ckpt'', ''ar''] \<mapsto> Directory,
      [''ckpt'', ''ar'', ''3''] \<mapsto> Directory,
      [''ckpt'', ''ar'', ''3'', ''state.pth''] \<mapsto> StateFile (saved_dict trained_engine),
      [''ckpt'', ''ar'', ''latest''] \<mapsto> TextFile ''3'']"

definition restart_cfg :: config where
  "restart_cfg = (example_cfg 2 8)\<lparr>load_states := False\<rparr>"

definition example_engines :: "(nat list, nat) engines" where
  "example_engines =
     \<lparr>members = [(''ar'', fresh_engine)], agg_global_step = 0, agg_micro_step = 0,
      agg_batch_size = 0, agg_global_samples = 0\<rparr>"

text \<open>A feeder that raises a memory-exhaustion error on every call, and one that does
  so on its first call only (its state counts the calls).\<close>

definition oom_feeder :: "'f \<Rightarrow> ('w, 's) engine \<Rightarrow> 'b batch \<Rightarrow> 'l feeder_result \<times> 'f" where
  "oom_feeder f engine batch = (Raises (RuntimeError ''CUDA out of memory''), f)"

definition flaky_feeder ::
  "nat \<Rightarrow> ('w, 's) engine \<Rightarrow> 'b batch \<Rightarrow> nat feeder_result \<times> nat" where
  "flaky_feeder calls engine batch =
     (if calls = 0 then (Raises (RuntimeError ''CUDA out of memory''), Suc calls)
      else (Returns (Some (42, [(StrKey ''nll'', 3)])), Suc calls))"

definition example_env :: "(nat list, nat, nat, nat, nat) step_env" where
  "example_env =
     \<lparr>feeder = flaky_feeder, backward = (\<lambda>engine loss. None),
      gather_scalar = (\<lambda>f. [(StrKey ''acc'', 1)]), world_size = 1,
      forward_ooms_elsewhere = 0, backward_ooms_elsewhere = 0\<rparr>"


definition example_batch :: "nat batch" where
  "example_batch = [(''text_list'', [1, 2, 3]), (''resps_list'', [4, 5, 6])]"

section \<open>Gradient accumulation\<close>

lemma div_succ:
  assumes "0 < (n::int)"
  shows "(a + 1) div n = a div n + (if (a + 1) mod n = 0 then 1 else 0)"
proof (cases "a mod n + 1 = n")
  case True
  have "a + 1 = (a div n + 1) * n" using True
    by (metis add.assoc distrib_left mult.commute mult.right_neutral mult_div_mod_eq)
  thus ?thesis using assms by simp
next
  case False
  have lo: "0 \<le> a mod n + 1" using assms by (simp add: add_nonneg_nonneg)
  have hi: "a mod n + 1 < n" using False assms pos_mod_bound [of n a] by linarith
  have eq: "a + 1 = n * (a div n) + (a mod n + 1)" by simp
  have d: "(a + 1) div n = a div n" by (rule int_div_pos_eq [OF eq lo hi])
  have m: "(a + 1) mod n = a mod n + 1" by (rule int_mod_pos_eq [OF eq lo hi])
  have "0 \<le> a mod n" using assms by simp
  with d m show ?thesis by simp
qed

text \<open>One call on an engine that has an optimizer: it returns, the two per-call
  counters advance, and the update happens exactly when \<open>micro_steps + 2\<close> (the value
  before the call) is a multiple of the accumulation factor.\<close>

lemma Engine_step_with_optimizer:
  "optimizer e = Some opt \<Longrightarrow> \<exists>e'. Engine_step cfg e = Inr e' \<and> optimizer e' \<noteq> None
     \<and> micro_steps e' = micro_steps e + 1
     \<and> global_samples e' = global_samples e + batch_size cfg
     \<and> global_steps e' = global_steps e +
          (if (micro_steps e + 2) mod max 1 (gradient_accumulation_steps cfg) = 0 then 1 else 0)"
  by (simp add: Engine_step_def Let_def add.commute)

text \<open>After \<open>k\<close> calls the number of optimizer updates is the number of multiples of
  the accumulation factor among \<open>micro_steps + 2, ..., micro_steps + k + 1\<close>.\<close>

lemma steps_counters:
  assumes "0 < gradient_accumulation_steps cfg"
  shows "optimizer e \<noteq> None \<Longrightarrow> \<exists>e'. steps cfg k e = Inr e' \<and> optimizer e' \<noteq> None
     \<and> micro_steps e' = micro_steps e + int k
     \<and> global_samples e' = global_samples e + int k * batch_size cfg
     \<and> global_steps e' = global_steps e +
          ((micro_steps e + int k + 1) div gradient_accumulation_steps cfg
            - (micro_steps e + 1) div gradient_accumulation_steps cfg)"
proof (induction k arbitrary: e)
  case 0
  then show ?case by simp
next
  case (Suc k)
  let ?N = "gradient_accumulation_steps cfg"
  have mx: "max 1 ?N = ?N" using assms by simp
  from Suc.prems obtain opt where "optimizer e = Some opt" by auto
  from Engine_step_with_optimizer [OF this, of cfg] obtain e1 where
    s: "Engine_step cfg e = Inr e1" and o: "optimizer e1 \<noteq> None"
    and m: "micro_steps e1 = micro_steps e + 1"
    and gs: "global_samples e1 = global_samples e + batch_size cfg"
    and g: "global_steps e1 = global_steps e + (if (micro_steps e + 2) mod ?N = 0 then 1 else 0)"
    unfolding mx by blast
  from Suc.IH [OF o] obtain e2 where
    s2: "steps cfg k e1 = Inr e2" and o2: "optimizer e2 \<noteq> None"
    and m2: "micro_steps e2 = micro_steps e1 + int k"
    and gs2: "global_samples e2 = global_samples e1 + int k * batch_size cfg"
    and g2: "global_steps e2 = global_steps e1 +
          ((micro_steps e1 + int k + 1) div ?N - (micro_steps e1 + 1) div ?N)"
    by blast
  have d: "(micro_steps e + 1 + 1) div ?N = (micro_steps e + 1) div ?N
             + (if (micro_steps e + 1 + 1) mod ?N = 0 then 1 else 0)"
    by (rule div_succ [OF assms])
  have "steps cfg (Suc k) e = Inr e2" using s s2 by simp
  moreover have "micro_steps e2 = micro_steps e + int (Suc k)" using m m2 by simp
  moreover have "global_samples e2 = global_samples e + int (Suc k) * batch_size cfg"
    using gs gs2 by (simp add: algebra_simps)
  moreover have "global_steps e2 = global_steps e +
          ((micro_steps e + int (Suc k) + 1) div ?N - (micro_steps e + 1) div ?N)"
    using g g2 m d by (simp add: algebra_simps)
  ultimately show ?case using o2 by blast
qed

text \<open>
  Claim C1. For every gradient-accumulation factor \<open>N \<ge> 1\<close> and every engine that has
  an optimizer, whatever its counters are, \<open>N\<close> consecutive calls of \<open>step()\<close> all
  return, \<open>global_steps\<close> grows by exactly 1 and \<open>global_samples\<close> grows by
  \<open>N * batch_size\<close>.
\<close>

theorem gradient_accumulation_window:
  assumes "1 \<le> N" and "gradient_accumulation_steps cfg = N" and "optimizer e = Some opt"
  shows "\<exists>e'. steps cfg (nat N) e = Inr e'
           \<and> global_steps e' = global_steps e + 1
           \<and> global_samples e' = global_samples e + N * batch_size cfg"
proof -
  have pos: "0 < gradient_accumulation_steps cfg" using assms by simp
  have o: "optimizer e \<noteq> None" using assms by simp
  from steps_counters [OF pos o, of "nat N"] obtain e' where
    s: "steps cfg (nat N) e = Inr e'"
    and gs: "global_samples e' = global_samples e + int (nat N) * batch_size cfg"
    and g: "global_steps e' = global_steps e +
          ((micro_steps e + int (nat N) + 1) div N - (micro_steps e + 1) div N)"
    using assms(2) by blast
  have n: "int (nat N) = N" using assms by simp
  have "(micro_steps e + 1 + N) div N = (micro_steps e + 1) div N + 1"
    using assms by simp
  hence "global_steps e' = global_steps e + 1" using g n by (simp add: algebra_simps)
  thus ?thesis using s gs n by simp
qed

theorem gradient_accumulation_window_witness:
  "(1::int) \<le> 3 \<and> gradient_accumulation_steps (example_cfg 3 8) = 3
   \<and> optimizer fresh_engine = Some example_optimizer
   \<and> (\<exists>e'. steps (example_cfg 3 8) (nat 3) fresh_engine = Inr e'
           \<and> global_steps e' = global_steps fresh_engine + 1
           \<and> global_samples e' = global_samples fresh_engine + 3 * batch_size (example_cfg 3 8))"
proof -
  have a: "(1::int) \<le> 3" by simp
  have b: "gradient_accumulation_steps (example_cfg 3 8) = 3" by (simp add: example_cfg_def)
  have c: "optimizer fresh_engine = Some example_optimizer" by (simp add: fresh_engine_def)
  show ?thesis using a b c gradient_accumulation_window [OF a b c] by simp
qed


text \<open>
  Claim C2. The claim places the optimizer update on calls number \<open>N, 2N, 3N, ...\<close> of
  a fresh engine. The code increments \<open>micro_steps\<close> first and then tests
  \<open>(micro_steps + 1) % N\<close>, so the update falls on the calls \<open>k\<close> with
  \<open>(k + 1) mod N = 0\<close>. With \<open>N = 2\<close> and a fresh engine the first call already
  runs \<open>optimizer.step()\<close> and \<open>optimizer.zero_grad()\<close> and increments
  \<open>global_steps\<close>; the second call, where the claim expects the update, only advances
  \<open>micro_steps\<close> and \<open>global_samples\<close>.
\<close>

theorem step_update_one_call_early:
  "steps (example_cfg 2 8) (Suc 0) fresh_engine =
     Inr (fresh_engine\<lparr>micro_steps := 1, global_samples := 8, global_steps := 1,
       optimizer := Some (example_optimizer\<lparr>opt_calls := [OptStep, ZeroGrad]\<rparr>)\<rparr>)
   \<and> steps (example_cfg 2 8) (Suc (Suc 0)) fresh_engine =
     Inr (fresh_engine\<lparr>micro_steps := 2, global_samples := 16, global_steps := 1,
       optimizer := Some (example_optimizer\<lparr>opt_calls := [OptStep, ZeroGrad]\<rparr>)\<rparr>)"
  by (simp add: Engine_step_def example_cfg_def fresh_engine_def example_optimizer_def
       optimizer_step_def optimizer_zero_grad_def Let_def)


section \<open>Freezing parameters\<close>

text \<open>
  Claim C7. The claim lets \<open>freeze\<close> fail only for \<open>freeze_all=False\<close> without a
  configuration, and expects \<open>freeze(freeze_all=True)\<close> on an engine without a bound
  configuration to freeze every trainable parameter. The guard of the code does not
  look at \<open>freeze_all\<close>: with \<open>freeze_all=True\<close> an engine whose \<open>_cfg\<close> is
  \<open>None\<close> raises the exception whose own message speaks of \<open>freeze_all=False\<close>,
  and an engine built without \<open>_cfg\<close> raises AttributeError; no parameter is frozen.
\<close>

theorem freeze_all_without_cfg_raises:
  "Engine_freeze True (e\<lparr>cfg_of := CfgNone\<rparr>) =
     Inl (PlainException ''freeze_all=False yet self._cfg.frozen_params is None'',
          e\<lparr>cfg_of := CfgNone\<rparr>)
   \<and> Engine_freeze True (e\<lparr>cfg_of := CfgUnset\<rparr>) =
     Inl (AttributeError ''Engine object has no attribute _cfg'', e\<lparr>cfg_of := CfgUnset\<rparr>)"
  by (simp add: Engine_freeze_def)

section \<open>The distributed flag\<close>

text \<open>
  Claim C9. \<open>distributed_initialized()\<close> returns \<open>False\<close> in every reachable state of
  the module, also after \<open>init_distributed\<close> has returned.
\<close>

theorem distributed_initialized_never_true:
  "reachable s \<Longrightarrow> distributed_initialized s = False"
proof (induction rule: reachable.induct)
  case (start env x)
  show ?case by (simp add: distributed_initialized_def module_loaded_def)
next
  case (init_returns s fn s')
  then show ?case
    by (auto simp: distributed_initialized_def init_distributed_def Let_def
          split: sum.splits prod.splits)
next
  case (init_raises s fn ex s')
  then show ?case
    by (auto simp: distributed_initialized_def init_distributed_def Let_def
          split: sum.splits prod.splits)
next
  case (fix_envs s port)
  then show ?case
    by (simp add: distributed_initialized_def fix_unset_envs_def Let_def)
qed

theorem distributed_initialized_never_true_witness:
  "reachable (module_loaded [] (True::bool)\<lparr>external := False\<rparr>)
   \<and> distributed_initialized (module_loaded [] (True::bool)\<lparr>external := False\<rparr>) = False"
proof -
  have i: "init_distributed (\<lambda>x. Inr (\<not> x)) (module_loaded [] True)
             = Inr (module_loaded [] True\<lparr>external := False\<rparr>)"
    by (simp add: init_distributed_def module_loaded_def)
  have r: "reachable (module_loaded [] True\<lparr>external := False\<rparr>)"
    by (rule reachable.init_returns [OF reachable.start i])
  show ?thesis using r distributed_initialized_never_true [OF r] by simp
qed

section \<open>The time slice of chunked autoregressive sampling\<close>

text \<open>
  Claim C8. The claim expects the first stage of \<open>sample\<close>, for a causal model with a
  positive \<open>recurrent_chunk_size\<close>, to return the newest chunk of every sequence without
  raising. For every positive chunk size (written \<open>1 + int n\<close>) and every list of
  logits the code raises TypeError instead.
\<close>

theorem chunkwise_time_slice_raises:
  "sample_time_slice True (1 + int n) None logits resps_list
     = Inl (TypeError ''int object is not iterable'')
   \<and> sample_time_slice True (1 + int n) None logits resps_list
     \<noteq> Inr (newest_chunk (1 + int n) logits)"
  by (simp add: sample_time_slice_def)


section \<open>Checkpoint round trip\<close>

lemma example_save:
  "Engine_save_checkpoint Map.empty [''ckpt'', ''ar''] ''3'' trained_engine = Inr example_fs"
  by (simp add: Engine_save_checkpoint_def write_file_def example_fs_def Let_def fun_upd_twist)

text \<open>
  Claim C5. The claim expects the round trip to succeed whether or not the engine has
  an optimizer. An engine that has an optimizer saves a checkpoint (the save returns)
  and loads it again with the default arguments: the four counters and the weights are
  restored, and then \<open>load_checkpoint\<close> raises TypeError at
  \<open>self.optimizer.load_state_dict(..., map_location=...)\<close>; the optimizer state is
  not restored. The same happens for every engine with an optimizer and every stored
  dictionary that has the counters, the weights and an \<open>optimizer\<close> key, whenever
  \<open>load_optimizer_states\<close> is true.
\<close>

theorem checkpoint_roundtrip_raises_with_optimizer:
  "Engine_save_checkpoint Map.empty [''ckpt'', ''ar''] ''3'' trained_engine = Inr example_fs
   \<and> Engine_load_checkpoint example_fs [''ckpt'', ''ar''] (Some ''3'') True True True False
        fresh_engine
      = Inl (TypeError ''load_state_dict() got an unexpected keyword argument map_location'',
             trained_engine)
   \<and> Engine_load_checkpoint (fs(d @ [tag, ''state.pth''] \<mapsto> StateFile (saved_dict e)))
        d (Some tag) strict True ls mo (e2\<lparr>optimizer := Some opt\<rparr>)
      = Inl (TypeError ''load_state_dict() got an unexpected keyword argument map_location'',
             e2\<lparr>optimizer := Some opt, global_steps := global_steps e,
                micro_steps := micro_steps e, global_samples := global_samples e,
                tokens_processed := tokens_processed e,
                module := (module e2)\<lparr>weights := weights (module e)\<rparr>\<rparr>)"
proof -
  have a: "Engine_load_checkpoint example_fs [''ckpt'', ''ar''] (Some ''3'') True True True
             False fresh_engine
      = Inl (TypeError ''load_state_dict() got an unexpected keyword argument map_location'',
             trained_engine)"
    by (simp add: Engine_load_checkpoint_def example_fs_def saved_dict_def restore_state_def
          state_counter_def restore_optimizer_def trained_engine_def fresh_engine_def Let_def)
  have b: "Engine_load_checkpoint (fs(d @ [tag, ''state.pth''] \<mapsto> StateFile (saved_dict e)))
        d (Some tag) strict True ls mo (e2\<lparr>optimizer := Some opt\<rparr>)
      = Inl (TypeError ''load_state_dict() got an unexpected keyword argument map_location'',
             e2\<lparr>optimizer := Some opt, global_steps := global_steps e,
                micro_steps := micro_steps e, global_samples := global_samples e,
                tokens_processed := tokens_processed e,
                module := (module e2)\<lparr>weights := weights (module e)\<rparr>\<rparr>)"
    by (simp add: Engine_load_checkpoint_def saved_dict_def restore_state_def
          state_counter_def restore_optimizer_def Let_def)
  from example_save a b show ?thesis by simp
qed

text \<open>
  Claim C6. \<open>load_checkpoint\<close> without a tag on a directory that has no \<open>latest\<close>
  pointer, or with a tag (given, or read from the pointer) whose \<open>state.pth\<close> does not
  exist, returns without raising and leaves the whole engine as it was: counters, module
  weights, optimizer and scheduler.
\<close>

theorem load_missing_checkpoint_noop:
  assumes "(tag = None \<and> fs (load_dir @ [''latest'']) = None)
         \<or> (tag = None \<and> fs (load_dir @ [''latest'']) = Some (TextFile t)
              \<and> fs (load_dir @ [t, ''state.pth'']) = None)
         \<or> (tag = Some t \<and> fs (load_dir @ [t, ''state.pth'']) = None)"
  shows "Engine_load_checkpoint fs load_dir tag strict lo ls mo e = Inr e"
  using assms by (auto simp: Engine_load_checkpoint_def)

theorem load_missing_checkpoint_noop_witness:
  "((None::string option) = None
      \<and> (Map.empty :: (nat list, nat) filesystem) ([''ckpt'', ''ar''] @ [''latest'']) = None)
   \<and> Engine_load_checkpoint Map.empty [''ckpt'', ''ar''] None True True True False
        trained_engine = Inr trained_engine"
proof -
  have a: "((None::string option) = None
              \<and> (Map.empty :: (nat list, nat) filesystem) ([''ckpt'', ''ar''] @ [''latest'']) = None)
         \<or> ((None::string option) = None
              \<and> (Map.empty :: (nat list, nat) filesystem) ([''ckpt'', ''ar''] @ [''latest''])
                   = Some (TextFile ''3'')
              \<and> (Map.empty :: (nat list, nat) filesystem) ([''ckpt'', ''ar''] @ [''3'', ''state.pth''])
                   = None)
         \<or> ((None::string option) = Some ''3''
              \<and> (Map.empty :: (nat list, nat) filesystem) ([''ckpt'', ''ar''] @ [''3'', ''state.pth''])
                   = None)"
    by simp
  show ?thesis
    using load_missing_checkpoint_noop
            [where strict = True and lo = True and ls = True and mo = False
               and e = trained_engine, OF a]
    by simp
qed

section \<open>Loading a collection with restart of the step count\<close>

lemma for_each_Inr:
  "for_each body ms = Inr ms' \<Longrightarrow>
     list_all2 (\<lambda>(n, e) (n', e'). n' = n \<and> body n e = Inr e') ms ms'"
proof (induction ms arbitrary: ms')
  case Nil
  then show ?case by simp
next
  case (Cons p ms)
  obtain n e where p: "p = (n, e)" by (cases p)
  from Cons.prems obtain e' rest' where
    b: "body n e = Inr e'" and r: "for_each body ms = Inr rest'" and m: "ms' = (n, e') # rest'"
    unfolding p by (auto split: sum.splits prod.splits)
  from Cons.IH [OF r] b m p show ?case by simp
qed

lemma list_all2_lookup:
  assumes "list_all2 (\<lambda>(n, e) (n', e'). n' = n \<and> R n e e') ms ms'"
    and "distinct (map fst ms)" and "(name, e) \<in> set ms"
  shows "\<exists>e'. map_of ms' name = Some e' \<and> R name e e'"
  using assms
proof (induction ms ms' rule: list_all2_induct)
  case Nil
  then show ?case by simp
next
  case (Cons p ms q ms')
  obtain n a where p: "p = (n, a)" by (cases p)
  obtain n' a' where q: "q = (n', a')" by (cases q)
  from Cons.hyps(1) p q have nn: "n' = n" and R: "R n a a'" by auto
  show ?case
  proof (cases "name = n")
    case True
    with Cons.prems p have "e = a" by (auto simp: rev_image_eqI)
    with True nn R q show ?thesis by simp
  next
    case False
    with Cons.prems p have "(name, e) \<in> set ms" and "distinct (map fst ms)" by auto
    from Cons.IH [OF this(2) this(1)] False nn q show ?thesis by simp
  qed
qed

lemma list_all2_names:
  "list_all2 (\<lambda>(n, e) (n', e'). n' = n \<and> R n e e') ms ms' \<Longrightarrow> map fst ms' = map fst ms"
  by (induction ms ms' rule: list_all2_induct) auto

lemma members_foldl_update:
  "members (foldl (\<lambda>E' (name, engine).
              E'\<lparr>agg_global_step := f1 E' engine,
                 agg_micro_step := f2 E' engine,
                 agg_batch_size := f3 E' engine,
                 agg_global_samples := f4 E' engine\<rparr>) E xs) = members E"
  by (induction xs arbitrary: E) (auto split: prod.splits)

lemma members_Engines_update: "members (Engines_update cfg E) = members E"
  unfolding Engines_update_def by (rule members_foldl_update)

lemma Engine_set_lr_frame:
  "Engine_set_lr lr e = Inr e' \<Longrightarrow> e' = e\<lparr>optimizer := optimizer e'\<rparr>"
  by (auto simp: Engine_set_lr_def split: option.splits)

lemma Engines_set_lr_members:
  assumes "Engines_set_lr lr E = Inr E'"
  shows "list_all2 (\<lambda>(n, e) (n', e'). n' = n \<and> e' = e\<lparr>optimizer := optimizer e'\<rparr>)
           (members E) (members E')"
proof -
  let ?body = "(\<lambda>name engine.
               case Engine_training engine of
                 Inl x \<Rightarrow> Inl (x, engine)
               | Inr t \<Rightarrow> if \<not> t then Inr engine else Engine_set_lr lr engine)"
  from assms obtain ms where f: "for_each ?body (members E) = Inr ms" and m: "members E' = ms"
    by (auto simp: Engines_set_lr_def split: sum.splits prod.splits)
  have "list_all2 (\<lambda>(n, e) (n', e'). n' = n \<and> ?body n e = Inr e') (members E) ms"
    by (rule for_each_Inr [OF f])
  then have "list_all2 (\<lambda>(n, e) (n', e'). n' = n \<and> e' = e\<lparr>optimizer := optimizer e'\<rparr>)
               (members E) ms"
    by (rule list_all2_mono) (auto split: sum.splits if_splits dest: Engine_set_lr_frame)
  with m show ?thesis by simp
qed

text \<open>
  Claim C10. \<open>Engines.load_checkpoint\<close> runs with \<open>restart_step_count\<close> enabled and
  returns. For every engine of the collection (names are the keys of a dict, hence
  distinct), its own \<open>load_checkpoint\<close> returned some engine state \<open>e1\<close>, and the engine
  stored under that name afterwards has \<open>global_steps\<close>, \<open>global_samples\<close> and
  \<open>tokens_processed\<close> equal to 0, the \<open>micro_steps\<close> of \<open>e1\<close> (never reset), and a
  new attribute \<open>mocro_step\<close> equal to 0.
\<close>

theorem restart_step_count_keeps_micro_steps:
  assumes "restart_step_count cfg"
    and "Engines_load_checkpoint cfg fs tag E = Inr E'"
    and "distinct (map fst (members E))"
    and "(name, e) \<in> set (members E)"
  shows "\<exists>e1 e'. load_one cfg fs (effective_tag cfg tag) name e = Inr e1
           \<and> map_of (members E') name = Some e'
           \<and> global_steps e' = 0 \<and> global_samples e' = 0 \<and> tokens_processed e' = 0
           \<and> micro_steps e' = micro_steps e1 \<and> mocro_step e' = Some 0"
proof -
  let ?tag = "effective_tag cfg tag"
  let ?body = "\<lambda>name engine.
               case load_one cfg fs ?tag name engine of
                 Inl x \<Rightarrow> Inl x
               | Inr e1 \<Rightarrow>
                   if restart_step_count cfg
                   then Inr (e1\<lparr>global_steps := 0, mocro_step := Some 0,
                                global_samples := 0, tokens_processed := 0\<rparr>)
                   else Inr e1"
  let ?R = "\<lambda>n e e'. ?body n e = Inr e'"
  let ?S = "\<lambda>(n::string) e e'. e' = e\<lparr>optimizer := optimizer e'\<rparr>"
  from assms(2) obtain ms E2 where
    f: "for_each ?body (members E) = Inr ms"
    and s: "(if scheduler_type cfg = []
             then Engines_set_lr (learning_rate cfg) (E\<lparr>members := ms\<rparr>)
             else Inr (E\<lparr>members := ms\<rparr>)) = Inr E2"
    and u: "E' = Engines_update cfg E2"
    by (auto simp: Engines_load_checkpoint_def Let_def split: sum.splits prod.splits)
  have l1: "list_all2 (\<lambda>(n, e) (n', e'). n' = n \<and> ?R n e e') (members E) ms"
    by (rule for_each_Inr [OF f])
  from list_all2_lookup [OF l1 assms(3) assms(4)] obtain e2 where
    m2: "map_of ms name = Some e2" and b: "?body name e = Inr e2" by blast
  from b assms(1) obtain e1 where
    lo: "load_one cfg fs ?tag name e = Inr e1"
    and e2: "e2 = e1\<lparr>global_steps := 0, mocro_step := Some 0,
                     global_samples := 0, tokens_processed := 0\<rparr>"
    by (auto split: sum.splits)
  have names: "map fst ms = map fst (members E)" by (rule list_all2_names [OF l1])
  have d2: "distinct (map fst ms)" using names assms(3) by simp
  have in2: "(name, e2) \<in> set ms" using m2 by (rule map_of_SomeD)
  have "\<exists>e'. map_of (members E2) name = Some e' \<and> ?S name e2 e'"
  proof (cases "scheduler_type cfg = []")
    case True
    with s have "Engines_set_lr (learning_rate cfg) (E\<lparr>members := ms\<rparr>) = Inr E2" by simp
    from Engines_set_lr_members [OF this]
    have "list_all2 (\<lambda>(n, e) (n', e'). n' = n \<and> ?S n e e') ms (members E2)" by simp
    from list_all2_lookup [OF this d2 in2] show ?thesis .
  next
    case False
    with s have "E2 = E\<lparr>members := ms\<rparr>" by simp
    with m2 show ?thesis by simp
  qed
  then obtain e' where m3: "map_of (members E2) name = Some e'"
    and e': "e' = e2\<lparr>optimizer := optimizer e'\<rparr>" by blast
  have c: "global_steps e' = global_steps e2 \<and> global_samples e' = global_samples e2
        \<and> tokens_processed e' = tokens_processed e2 \<and> micro_steps e' = micro_steps e2
        \<and> mocro_step e' = mocro_step e2"
    by (subst e', simp)+
  have "map_of (members E') name = Some e'" using m3 u by (simp add: members_Engines_update)
  with lo c e2 show ?thesis by simp
qed

lemma example_load_one:
  "load_one restart_cfg example_fs (effective_tag restart_cfg None) ''ar''
     fresh_engine = Inr trained_engine"
  by (simp add: load_one_def effective_tag_def restart_cfg_def example_cfg_def example_fs_def
      saved_dict_def Engine_load_checkpoint_def Let_def restore_state_def
      state_counter_def restore_optimizer_def restore_lr_scheduler_def trained_engine_def
      fresh_engine_def)

lemma example_Engines_load_checkpoint:
  "Engines_load_checkpoint restart_cfg example_fs None example_engines =
     Inr \<lparr>members = [(''ar'', trained_engine\<lparr>global_steps := 0, mocro_step := Some 0,
                                  global_samples := 0, tokens_processed := 0\<rparr>)],
          agg_global_step = 0, agg_micro_step = 7, agg_batch_size = 8,
          agg_global_samples = 0\<rparr>"
  using example_load_one
  by (simp add: Engines_load_checkpoint_def example_engines_def Engines_update_def
        restart_cfg_def example_cfg_def trained_engine_def fresh_engine_def)

theorem restart_step_count_keeps_micro_steps_witness:
  "restart_step_count restart_cfg
   \<and> distinct (map fst (members example_engines))
   \<and> (''ar'', fresh_engine) \<in> set (members example_engines)
   \<and> (\<exists>E'. Engines_load_checkpoint restart_cfg example_fs None example_engines = Inr E'
        \<and> (\<exists>e1 e'. load_one restart_cfg example_fs
                       (effective_tag restart_cfg None) ''ar'' fresh_engine = Inr e1
             \<and> micro_steps e1 = 7
             \<and> map_of (members E') ''ar'' = Some e'
             \<and> global_steps e' = 0 \<and> global_samples e' = 0 \<and> tokens_processed e' = 0
             \<and> micro_steps e' = 7 \<and> mocro_step e' = Some 0))"
proof -
  have a: "restart_step_count restart_cfg" by (simp add: restart_cfg_def example_cfg_def)
  have c: "distinct (map fst (members example_engines))" by (simp add: example_engines_def)
  have d: "(''ar'', fresh_engine) \<in> set (members example_engines)"
    by (simp add: example_engines_def)
  have m: "micro_steps trained_engine = 7" by (simp add: trained_engine_def)
  from restart_step_count_keeps_micro_steps [OF a example_Engines_load_checkpoint c d]
  obtain e1 e' where
    "load_one restart_cfg example_fs (effective_tag restart_cfg None) ''ar''
       fresh_engine = Inr e1"
    and "map_of (members \<lparr>members = [(''ar'', trained_engine\<lparr>global_steps := 0,
             mocro_step := Some 0, global_samples := 0, tokens_processed := 0\<rparr>)],
          agg_global_step = 0, agg_micro_step = 7, agg_batch_size = 8,
          agg_global_samples = 0\<rparr>) ''ar'' = Some e'"
    and "global_steps e' = 0" and "global_samples e' = 0" and "tokens_processed e' = 0"
    and "micro_steps e' = micro_steps e1" and "mocro_step e' = Some 0"
    by blast
  with example_load_one m a c d example_Engines_load_checkpoint show ?thesis by auto
qed


section \<open>Out-of-memory handling in the forward pass\<close>

lemma oom_message: "sublist ''out of memory'' ''CUDA out of memory''"
  by (simp add: sublist_Cons_right)

text \<open>With a feeder that always raises a memory-exhaustion error, no call of the loop
  with \<open>tries = 4\<close> returns anything: by fixpoint induction, every unfolding of the loop
  ends in a recursive call with the same \<open>tries\<close>.\<close>

lemma forward_retry_never_returns:
  assumes "forward_retry env name engine tries n_ooms vars = Some y"
  shows "feeder env = oom_feeder \<longrightarrow> tries = 4 \<longrightarrow> False"
  by (rule forward_retry.raw_induct
        [where P = "\<lambda>env name engine tries n_ooms vars y.
                      feeder env = oom_feeder \<longrightarrow> tries = 4 \<longrightarrow> False", OF _ assms])
     (auto simp: call_feeder_def oom_feeder_def oom_message Let_def split: if_splits, blast)

lemma forward_retry_diverges:
  "forward_retry (env\<lparr>feeder := oom_feeder\<rparr>) name engine 4 n_ooms vars = None"
proof (cases "forward_retry (env\<lparr>feeder := oom_feeder\<rparr>) name engine 4 n_ooms vars")
  case None
  then show ?thesis .
next
  case (Some y)
  from forward_retry_never_returns [OF Some] show ?thesis by simp
qed

lemma forward_phase_never_returns:
  "forward_phase (env\<lparr>feeder := oom_feeder\<rparr>) (cfg\<lparr>check_for_oom := True\<rparr>) name engine vars
     = None"
  by (simp add: forward_phase_def forward_retry_diverges)

text \<open>
  Claim C3. The claim bounds the retries at 4 and expects a fatal out-of-memory error
  after the \<open>all_reduce\<close>. With OOM checking enabled and a feeder that raises a
  memory-exhaustion error on every call, the forward phase of \<open>Engines.step\<close> neither
  returns nor raises, for every engine, batch and environment; and
  \<open>Engines.step\<close> on the collection with one trainable engine does not return.
\<close>

theorem forward_oom_retry_unbounded:
  "forward_phase (env\<lparr>feeder := oom_feeder\<rparr>) (cfg\<lparr>check_for_oom := True\<rparr>) name engine vars
     = None
   \<and> Engines_step (example_env\<lparr>feeder := oom_feeder\<rparr>) (example_cfg 2 8) example_batch
        (0::nat) example_engines = None"
proof -
  have c: "example_cfg 2 8 = (example_cfg 2 8)\<lparr>check_for_oom := True\<rparr>"
    by (simp add: example_cfg_def)
  have "forward_phase (example_env\<lparr>feeder := oom_feeder\<rparr>) (example_cfg 2 8) ''ar''
          fresh_engine vars = None" for vars :: "(nat, nat, nat) step_vars"
    by (subst c) (rule forward_phase_never_returns)
  then have "Engines_step (example_env\<lparr>feeder := oom_feeder\<rparr>) (example_cfg 2 8) example_batch
        (0::nat) example_engines = None"
    by (simp add: Engines_step_def example_engines_def step_engine_def Engine_training_def
          fresh_engine_def)
  then show ?thesis by (simp add: forward_phase_never_returns)
qed

section \<open>Recovery from one out-of-memory error\<close>








text \<open>Statistics that collide with a keyword written out in the call, or with a key
  that is not a string, are refused: the step raises TypeError after the engine has
  stepped.\<close>

lemma keyword_args_refuses:
  "keyword_args [(StrKey ''nll'', 3), (StrKey ''loss'', 1)]
     = Inl (TypeError ''dict() got multiple values for keyword argument'')
   \<and> keyword_args [(OtherKey 0, 1)] = Inl (TypeError ''keywords must be strings'')"
  by (simp add: fixed_keywords_def)




end
